theory Spec2Isabelle
  imports Main
begin

section \<open>The platform: thrown values, JSON, requests and responses\<close>

text \<open>
  A JavaScript \<^verbatim>\<open>throw\<close> (or a rejected promise) carries a value. The component tests
  \<^verbatim>\<open>err instanceof Error\<close> and reads \<^verbatim>\<open>err.message\<close>, so a thrown value is either an
  \<^verbatim>\<open>Error\<close> with its message or something else. A computation that may throw returns
  \<open>thrown + 'a\<close>, with \<open>Inl\<close> for the throw.
\<close>

datatype thrown = Error string | NonError

text \<open>
  JSON values. Numbers are restricted to integers: the client only ever builds the
  object \<^verbatim>\<open>{ content }\<close>, whose single member is a string.
\<close>

datatype json =
    JNull
  | JBool bool
  | JNumber int
  | JString string
  | JArray "json list"
  | JObject "(string \<times> json) list"

text \<open>
  \<^verbatim>\<open>JSON.stringify\<close>. Strings are quoted as ECMAScript's QuoteJSONString does: the
  double quote and the backslash are escaped, the control characters below U+0020 are
  written with their short escape or as \<^verbatim>\<open>\u00XX\<close>, every other character is copied.
\<close>

definition hex_digit :: "nat \<Rightarrow> char" where
  "hex_digit n = ''0123456789abcdef'' ! (n mod 16)"

definition quote_char :: "char \<Rightarrow> string" where
  "quote_char c =
     (if c = CHR 0x22 then [CHR 0x5C, CHR 0x22]
      else if c = CHR 0x5C then [CHR 0x5C, CHR 0x5C]
      else if c = CHR 0x08 then [CHR 0x5C, CHR ''b'']
      else if c = CHR 0x0C then [CHR 0x5C, CHR ''f'']
      else if c = CHR 0x0A then [CHR 0x5C, CHR ''n'']
      else if c = CHR 0x0D then [CHR 0x5C, CHR ''r'']
      else if c = CHR 0x09 then [CHR 0x5C, CHR ''t'']
      else if of_char c < (32::nat)
        then [CHR 0x5C, CHR ''u'', CHR ''0'', CHR ''0'',
              hex_digit (of_char c div 16), hex_digit (of_char c mod 16)]
      else [c])"

definition QuoteJSONString :: "string \<Rightarrow> string" where
  "QuoteJSONString s = [CHR 0x22] @ concat (map quote_char s) @ [CHR 0x22]"

fun digits :: "nat \<Rightarrow> string" where
  "digits n = (if n < 10 then [hex_digit n] else digits (n div 10) @ [hex_digit (n mod 10)])"

definition show_int :: "int \<Rightarrow> string" where
  "show_int i = (if i < 0 then ''-'' @ digits (nat (- i)) else digits (nat i))"

fun commas :: "string list \<Rightarrow> string" where
  "commas [] = []"
| "commas [x] = x"
| "commas (x # y # ys) = x @ '','' @ commas (y # ys)"

fun JSON_stringify :: "json \<Rightarrow> string" where
  "JSON_stringify JNull = ''null''"
| "JSON_stringify (JBool b) = (if b then ''true'' else ''false'')"
| "JSON_stringify (JNumber i) = show_int i"
| "JSON_stringify (JString s) = QuoteJSONString s"
| "JSON_stringify (JArray xs) = ''['' @ commas (map JSON_stringify xs) @ '']''"
| "JSON_stringify (JObject kvs) =
     ''{'' @ commas (map (\<lambda>kv. QuoteJSONString (fst kv) @ '':'' @ JSON_stringify (snd kv)) kvs) @ ''}''"

text \<open>
  The second argument of \<^verbatim>\<open>fetch\<close>: the members the client passes. A member that is not
  passed is \<open>None\<close>; \<^verbatim>\<open>fetch\<close> then uses its default, which for the method is GET
  (the field is \<open>method'\<close>, the plain word being reserved).
\<close>

record request =
  url :: string
  method' :: "string option"
  headers :: "(string \<times> string) list"
  body :: "string option"
  mode :: "string option"

definition http_method :: "request \<Rightarrow> string" where
  "http_method r = (case method' r of None \<Rightarrow> ''GET'' | Some m \<Rightarrow> m)"

text \<open>
  What the client reads of a \<^verbatim>\<open>Response\<close>: \<^verbatim>\<open>ok\<close>, \<^verbatim>\<open>status\<close>, \<^verbatim>\<open>statusText\<close> and the
  outcome of \<^verbatim>\<open>response.json()\<close>, which rejects when the body is not JSON. The client
  never inspects the parsed value, so its type is a parameter: \<open>json\<close> at run time,
  the declared \<^verbatim>\<open>Clipboard\<close> where the TypeScript types are taken at their word.
\<close>

record 'a response =
  ok :: bool
  status :: nat
  statusText :: string
  json :: "thrown + 'a"

text \<open>\<^verbatim>\<open>fetch\<close> itself rejects on a network failure.\<close>

type_synonym 'a fetch = "request \<Rightarrow> thrown + 'a response"

section \<open>src/lib/api.ts\<close>

definition default_base_url :: string where
  "default_base_url = ''https://shared-clipboard-i8et.vercel.app''"

text \<open>\<^verbatim>\<open>import.meta.env.VITE_API_URL || '...'\<close>: an unset or empty variable is falsy.\<close>

definition API_BASE_URL :: "string option \<Rightarrow> string" where
  "API_BASE_URL VITE_API_URL =
     (case VITE_API_URL of
        None \<Rightarrow> default_base_url
      | Some u \<Rightarrow> if u = [] then default_base_url else u)"

record Clipboard =
  Clipboard_id :: string
  Clipboard_content :: string
  created_at :: string
  updated_at :: string

record ApiClient =
  baseUrl :: string

definition api :: "string option \<Rightarrow> ApiClient" where
  "api VITE_API_URL = \<lparr>baseUrl = API_BASE_URL VITE_API_URL\<rparr>"

definition createClipboard_request :: "ApiClient \<Rightarrow> request" where
  "createClipboard_request this =
     \<lparr>url = baseUrl this @ ''/clipboard/new'',
      method' = Some ''POST'',
      headers = [(''Content-Type'', ''application/json'')],
      body = None,
      mode = None\<rparr>"

definition createClipboard :: "ApiClient \<Rightarrow> 'a fetch \<Rightarrow> thrown + 'a" where
  "createClipboard this fetch =
     (case fetch (createClipboard_request this) of
        Inl e \<Rightarrow> Inl e
      | Inr response \<Rightarrow>
          if \<not> ok response then Inl (Error ''Failed to create clipboard'')
          else json response)"

definition getClipboard_request :: "ApiClient \<Rightarrow> string \<Rightarrow> request" where
  "getClipboard_request this clipboardId =
     \<lparr>url = baseUrl this @ ''/clipboard/'' @ clipboardId,
      method' = None,
      headers = [],
      body = None,
      mode = None\<rparr>"

definition getClipboard :: "ApiClient \<Rightarrow> 'a fetch \<Rightarrow> string \<Rightarrow> thrown + 'a" where
  "getClipboard this fetch clipboardId =
     (case fetch (getClipboard_request this clipboardId) of
        Inl e \<Rightarrow> Inl e
      | Inr response \<Rightarrow>
          if \<not> ok response then
            (if status response = 404 then Inl (Error ''Clipboard not found'')
             else Inl (Error ''Failed to fetch clipboard''))
          else json response)"

definition updateClipboard_request :: "ApiClient \<Rightarrow> string \<Rightarrow> string \<Rightarrow> request" where
  "updateClipboard_request this clipboardId content =
     \<lparr>url = baseUrl this @ ''/clipboard/'' @ clipboardId,
      method' = Some ''PUT'',
      headers = [(''Content-Type'', ''application/json'')],
      body = Some (JSON_stringify (JObject [(''content'', JString content)])),
      mode = None\<rparr>"

definition updateClipboard :: "ApiClient \<Rightarrow> 'a fetch \<Rightarrow> string \<Rightarrow> string \<Rightarrow> thrown + 'a" where
  "updateClipboard this fetch clipboardId content =
     (case fetch (updateClipboard_request this clipboardId content) of
        Inl e \<Rightarrow> Inl e
      | Inr response \<Rightarrow>
          if \<not> ok response then
            (if status response = 404 then Inl (Error ''Clipboard not found'')
             else Inl (Error ''Failed to update clipboard''))
          else json response)"

definition checkHealth_request :: "ApiClient \<Rightarrow> request" where
  "checkHealth_request this =
     \<lparr>url = baseUrl this @ ''/health'',
      method' = None,
      headers = [],
      body = None,
      mode = None\<rparr>"

text \<open>The body of the \<^verbatim>\<open>try\<close> block, then the \<^verbatim>\<open>catch\<close> that turns any throw into false.\<close>

definition checkHealth :: "ApiClient \<Rightarrow> 'a fetch \<Rightarrow> thrown + bool" where
  "checkHealth this fetch =
     (case (case fetch (checkHealth_request this) of
              Inl e \<Rightarrow> Inl e
            | Inr response \<Rightarrow> Inr (ok response)) of
        Inl e \<Rightarrow> Inr False
      | Inr b \<Rightarrow> Inr b)"

section \<open>The copy of the client that follows the component\<close>

text \<open>
  The file of the component (\<^verbatim>\<open>src/unnamed/part_000\<close>) ends with a second copy of the
  client. It writes to the console, so its operations return what they wrote together
  with their result.
\<close>

datatype 'a console_arg = Text string | Number nat | Data 'a

datatype 'a console_entry =
    Console_log "'a console_arg list"
  | Console_error "'a console_arg list"

definition createClipboard_request_embedded :: "ApiClient \<Rightarrow> request" where
  "createClipboard_request_embedded this =
     \<lparr>url = baseUrl this @ ''/clipboard/new'',
      method' = Some ''POST'',
      headers = [(''Content-Type'', ''application/json'')],
      body = None,
      mode = Some ''cors''\<rparr>"

definition createClipboard_embedded ::
  "ApiClient \<Rightarrow> 'a fetch \<Rightarrow> 'a console_entry list \<times> (thrown + 'a)" where
  "createClipboard_embedded this fetch =
     (case fetch (createClipboard_request_embedded this) of
        Inl e \<Rightarrow> ([], Inl e)
      | Inr response \<Rightarrow>
          if \<not> ok response then ([], Inl (Error ''Failed to create clipboard''))
          else (case json response of
                  Inl e \<Rightarrow> ([], Inl e)
                | Inr data \<Rightarrow>
                    ([Console_log [Text ''Create clipboard response:'', Data data]], Inr data)))"

definition getClipboard_request_embedded :: "ApiClient \<Rightarrow> string \<Rightarrow> request" where
  "getClipboard_request_embedded this clipboardId =
     \<lparr>url = baseUrl this @ ''/clipboard/'' @ clipboardId,
      method' = None,
      headers = [],
      body = None,
      mode = Some ''cors''\<rparr>"

definition getClipboard_embedded ::
  "ApiClient \<Rightarrow> 'a fetch \<Rightarrow> string \<Rightarrow> 'a console_entry list \<times> (thrown + 'a)" where
  "getClipboard_embedded this fetch clipboardId =
     (let console = [Console_log [Text ''Fetching clipboard:'', Text clipboardId]] in
      case fetch (getClipboard_request_embedded this clipboardId) of
        Inl e \<Rightarrow> (console, Inl e)
      | Inr response \<Rightarrow>
          if \<not> ok response then
            (let console = console @ [Console_error [Text ''Get clipboard failed:'',
                                         Number (status response), Text (statusText response)]] in
             if status response = 404 then (console, Inl (Error ''Clipboard not found''))
             else (console, Inl (Error ''Failed to fetch clipboard'')))
          else (case json response of
                  Inl e \<Rightarrow> (console, Inl e)
                | Inr data \<Rightarrow>
                    (console @ [Console_log [Text ''Get clipboard response:'', Data data]],
                     Inr data)))"

definition updateClipboard_request_embedded :: "ApiClient \<Rightarrow> string \<Rightarrow> string \<Rightarrow> request" where
  "updateClipboard_request_embedded this clipboardId content =
     \<lparr>url = baseUrl this @ ''/clipboard/'' @ clipboardId,
      method' = Some ''PUT'',
      headers = [(''Content-Type'', ''application/json'')],
      body = Some (JSON_stringify (JObject [(''content'', JString content)])),
      mode = None\<rparr>"

definition updateClipboard_embedded ::
  "ApiClient \<Rightarrow> 'a fetch \<Rightarrow> string \<Rightarrow> string \<Rightarrow> 'a console_entry list \<times> (thrown + 'a)" where
  "updateClipboard_embedded this fetch clipboardId content =
     (case fetch (updateClipboard_request_embedded this clipboardId content) of
        Inl e \<Rightarrow> ([], Inl e)
      | Inr response \<Rightarrow>
          if \<not> ok response then
            (if status response = 404 then ([], Inl (Error ''Clipboard not found''))
             else ([], Inl (Error ''Failed to update clipboard'')))
          else ([], json response))"

definition checkHealth_request_embedded :: "ApiClient \<Rightarrow> request" where
  "checkHealth_request_embedded this =
     \<lparr>url = baseUrl this @ ''/health'',
      method' = None,
      headers = [],
      body = None,
      mode = None\<rparr>"

definition checkHealth_embedded ::
  "ApiClient \<Rightarrow> 'a fetch \<Rightarrow> 'a console_entry list \<times> (thrown + bool)" where
  "checkHealth_embedded this fetch =
     (case (case fetch (checkHealth_request_embedded this) of
              Inl e \<Rightarrow> Inl e
            | Inr response \<Rightarrow> Inr (ok response)) of
        Inl e \<Rightarrow> ([], Inr False)
      | Inr b \<Rightarrow> ([], Inr b))"

section \<open>Example servers\<close>

text \<open>A server that answers 200 with a body that is not JSON (an HTML page, say).\<close>

definition html_response :: "json response" where
  "html_response =
     \<lparr>ok = True, status = 200, statusText = ''OK'',
      json = Inl (Error ''Unexpected token < in JSON at position 0'')\<rparr>"

definition html_server :: "json fetch" where
  "html_server r = Inr html_response"

text \<open>A network that is down: \<^verbatim>\<open>fetch\<close> rejects.\<close>

definition offline :: "json fetch" where
  "offline r = Inl (Error ''Failed to fetch'')"

text \<open>A server that answers 200 with a JSON object holding only an \<^verbatim>\<open>id\<close>.\<close>

definition id_only :: json where
  "id_only = JObject [(''id'', JString ''abc'')]"

definition id_only_server :: "json fetch" where
  "id_only_server r = Inr \<lparr>ok = True, status = 200, statusText = ''OK'', json = Inr id_only\<rparr>"

text \<open>A well-behaved store of one clipboard \<^verbatim>\<open>abc\<close>: 404 for every other path.\<close>

definition abc_json :: "string \<Rightarrow> json" where
  "abc_json c =
     JObject [(''id'', JString ''abc''), (''content'', JString c),
              (''created_at'', JString ''2024-01-01T00:00:00Z''),
              (''updated_at'', JString ''2024-01-02T00:00:00Z'')]"

definition abc_server :: "json fetch" where
  "abc_server r =
     (if url r = default_base_url @ ''/clipboard/abc''
      then Inr \<lparr>ok = True, status = 200, statusText = ''OK'', json = Inr (abc_json ''hello'')\<rparr>
      else if url r = default_base_url @ ''/health''
      then Inr \<lparr>ok = True, status = 200, statusText = ''OK'', json = Inr JNull\<rparr>
      else if url r = default_base_url @ ''/clipboard/new''
      then Inr \<lparr>ok = True, status = 200, statusText = ''OK'', json = Inr id_only\<rparr>
      else Inr \<lparr>ok = False, status = 404, statusText = ''Not Found'', json = Inr JNull\<rparr>)"

text \<open>
  The declared shape of a clipboard, read on a JSON value: an object whose members are
  exactly \<^verbatim>\<open>id\<close>, \<^verbatim>\<open>content\<close>, \<^verbatim>\<open>created_at\<close> and \<^verbatim>\<open>updated_at\<close>, each a string.
\<close>

definition Clipboard_fields :: "string list" where
  "Clipboard_fields = [''id'', ''content'', ''created_at'', ''updated_at'']"

definition is_string :: "json option \<Rightarrow> bool" where
  "is_string v = (case v of Some (JString s) \<Rightarrow> True | _ \<Rightarrow> False)"

definition is_Clipboard :: "json \<Rightarrow> bool" where
  "is_Clipboard v =
     (case v of
        JObject kvs \<Rightarrow>
          distinct (map fst kvs)
          \<and> list_all (\<lambda>k. is_string (map_of kvs k)) Clipboard_fields
          \<and> list_all (\<lambda>k. k \<in> set Clipboard_fields) (map fst kvs)
      | _ \<Rightarrow> False)"

section \<open>The ClipboardEditor component\<close>

text \<open>
  The component is modelled at its declared types: \<^verbatim>\<open>api.getClipboard\<close> and
  \<^verbatim>\<open>api.updateClipboard\<close> are used at \<^verbatim>\<open>Promise<Clipboard>\<close>, so the network it talks to is a
  \<open>Clipboard fetch\<close>. State setters take effect at once.

  The record holds the prop, the imported client, the \<^verbatim>\<open>useState\<close> and \<^verbatim>\<open>useRef\<close> cells,
  and the part of the environment the component acts on: the toasts shown, the requests
  handed to \<^verbatim>\<open>fetch\<close>, the async functions suspended at an \<^verbatim>\<open>await\<close>, the pending timers
  with the counter that numbers them, the clock (in milliseconds) and the system clipboard.
\<close>

record toast =
  title :: string
  description :: string
  variant :: "string option"

text \<open>The three closures the component hands to \<^verbatim>\<open>setTimeout\<close>.\<close>

datatype callback =
    SaveContent_callback string
  | ResetCopiedContent
  | ResetCopiedLink

text \<open>An async function suspended at its \<^verbatim>\<open>await\<close>, with the variable it has captured.\<close>

datatype continuation =
    FetchClipboard_await
  | SaveContent_await string

record editor =
  clipboardId :: string
  client :: ApiClient
  content :: string
  clipboard :: "Clipboard option"
  isLoading :: bool
  isSaving :: bool
  hasChanges :: bool
  copiedContent :: bool
  copiedLink :: bool
  error :: "string option"
  saveTimeoutRef :: "nat option"
  lastSavedContent :: string
  toasts :: "toast list"
  sent :: "request list"
  awaiting :: "continuation list"
  timers :: "(nat \<times> nat \<times> callback) list"
  next_timer :: nat
  now :: nat
  system_clipboard :: string

text \<open>The \<^verbatim>\<open>useState\<close> and \<^verbatim>\<open>useRef\<close> initial values; timer handles are positive.\<close>

definition initial :: "ApiClient \<Rightarrow> string \<Rightarrow> editor" where
  "initial a cid =
     \<lparr>clipboardId = cid, client = a, content = [], clipboard = None,
      isLoading = True, isSaving = False, hasChanges = False,
      copiedContent = False, copiedLink = False, error = None,
      saveTimeoutRef = None, lastSavedContent = [],
      toasts = [], sent = [], awaiting = [], timers = [], next_timer = 1, now = 0,
      system_clipboard = []\<rparr>"

text \<open>
  \<^verbatim>\<open>setTimeout\<close> registers the callback under a fresh handle, due after the delay;
  \<^verbatim>\<open>clearTimeout\<close> removes the timer with that handle, if it is still pending.
\<close>

definition setTimeout :: "callback \<Rightarrow> nat \<Rightarrow> editor \<Rightarrow> nat \<times> editor" where
  "setTimeout cb delay w =
     (next_timer w,
      w\<lparr>timers := timers w @ [(next_timer w, now w + delay, cb)],
        next_timer := Suc (next_timer w)\<rparr>)"

definition clearTimeout :: "nat \<Rightarrow> editor \<Rightarrow> editor" where
  "clearTimeout h w = w\<lparr>timers := filter (\<lambda>t. fst t \<noteq> h) (timers w)\<rparr>"

text \<open>\<^verbatim>\<open>fetchClipboard\<close> up to its \<^verbatim>\<open>await\<close>: the request leaves and the function is suspended.\<close>

definition fetchClipboard :: "editor \<Rightarrow> editor" where
  "fetchClipboard w =
     (let w = w\<lparr>isLoading := True\<rparr>;
          w = w\<lparr>error := None\<rparr>
      in w\<lparr>sent := sent w @ [getClipboard_request (client w) (clipboardId w)],
           awaiting := awaiting w @ [FetchClipboard_await]\<rparr>)"

text \<open>The rest of \<^verbatim>\<open>fetchClipboard\<close>, once the network has answered: try, catch, finally.\<close>

definition fetchClipboard_resume :: "Clipboard fetch \<Rightarrow> editor \<Rightarrow> editor" where
  "fetchClipboard_resume fetch w =
     (let w = (case getClipboard (client w) fetch (clipboardId w) of
                 Inr data \<Rightarrow>
                   (let w = w\<lparr>clipboard := Some data\<rparr>;
                        w = w\<lparr>content := Clipboard_content data\<rparr>
                    in w\<lparr>lastSavedContent := Clipboard_content data\<rparr>)
               | Inl err \<Rightarrow>
                   w\<lparr>error := Some (case err of Error message \<Rightarrow> message
                                     | NonError \<Rightarrow> ''Failed to load clipboard'')\<rparr>)
      in w\<lparr>isLoading := False\<rparr>)"

text \<open>\<^verbatim>\<open>saveContent\<close> up to its \<^verbatim>\<open>await\<close>.\<close>

definition saveContent :: "string \<Rightarrow> editor \<Rightarrow> editor" where
  "saveContent newContent w =
     (if newContent = lastSavedContent w then w
      else (let w = w\<lparr>isSaving := True\<rparr>
            in w\<lparr>sent := sent w @ [updateClipboard_request (client w) (clipboardId w) newContent],
                 awaiting := awaiting w @ [SaveContent_await newContent]\<rparr>))"

text \<open>The rest of \<^verbatim>\<open>saveContent\<close>, once the network has answered.\<close>

definition saveContent_resume :: "string \<Rightarrow> Clipboard fetch \<Rightarrow> editor \<Rightarrow> editor" where
  "saveContent_resume newContent fetch w =
     (let w = (case updateClipboard (client w) fetch (clipboardId w) newContent of
                 Inr data \<Rightarrow>
                   (let w = w\<lparr>clipboard := Some data\<rparr>;
                        w = w\<lparr>lastSavedContent := newContent\<rparr>
                    in w\<lparr>hasChanges := False\<rparr>)
               | Inl err \<Rightarrow>
                   w\<lparr>toasts := toasts w @
                        [\<lparr>title = ''Failed to save'',
                          description = (case err of Error message \<Rightarrow> message
                                         | NonError \<Rightarrow> ''Could not save changes''),
                          variant = Some ''destructive''\<rparr>]\<rparr>)
      in w\<lparr>isSaving := False\<rparr>)"

text \<open>\<^verbatim>\<open>if (saveTimeoutRef.current) clearTimeout(saveTimeoutRef.current)\<close>: null and 0 are falsy.\<close>

definition clear_save_timeout :: "editor \<Rightarrow> editor" where
  "clear_save_timeout w =
     (case saveTimeoutRef w of
        None \<Rightarrow> w
      | Some h \<Rightarrow> if h \<noteq> 0 then clearTimeout h w else w)"

definition handleContentChange :: "string \<Rightarrow> editor \<Rightarrow> editor" where
  "handleContentChange newContent w =
     (let w = w\<lparr>content := newContent\<rparr>;
          w = w\<lparr>hasChanges := (newContent \<noteq> lastSavedContent w)\<rparr>;
          w = clear_save_timeout w;
          (h, w) = setTimeout (SaveContent_callback newContent) 1500 w
      in w\<lparr>saveTimeoutRef := Some h\<rparr>)"

definition handleManualSave :: "editor \<Rightarrow> editor" where
  "handleManualSave w = (let w = clear_save_timeout w in saveContent (content w) w)"

text \<open>
  \<^verbatim>\<open>copyContent\<close> and \<^verbatim>\<open>copyLink\<close>; the flag says whether \<^verbatim>\<open>navigator.clipboard.writeText\<close>
  resolved, and \<open>href\<close> is \<^verbatim>\<open>window.location.href\<close>.
\<close>

definition copyContent :: "bool \<Rightarrow> editor \<Rightarrow> editor" where
  "copyContent written w =
     (if written then
        (let w = w\<lparr>system_clipboard := content w\<rparr>;
             w = w\<lparr>copiedContent := True\<rparr>;
             w = snd (setTimeout ResetCopiedContent 2000 w)
         in w\<lparr>toasts := toasts w @
                [\<lparr>title = ''Copied!'', description = ''Content copied to clipboard'',
                  variant = None\<rparr>]\<rparr>)
      else
        w\<lparr>toasts := toasts w @
             [\<lparr>title = ''Failed to copy'', description = ''Could not copy to clipboard'',
               variant = Some ''destructive''\<rparr>]\<rparr>)"

definition copyLink :: "string \<Rightarrow> bool \<Rightarrow> editor \<Rightarrow> editor" where
  "copyLink href written w =
     (if written then
        (let w = w\<lparr>system_clipboard := href\<rparr>;
             w = w\<lparr>copiedLink := True\<rparr>;
             w = snd (setTimeout ResetCopiedLink 2000 w)
         in w\<lparr>toasts := toasts w @
                [\<lparr>title = ''Link copied!'', description = ''Share this link with anyone'',
                  variant = None\<rparr>]\<rparr>)
      else
        w\<lparr>toasts := toasts w @
             [\<lparr>title = ''Failed to copy'', description = ''Could not copy link'',
               variant = Some ''destructive''\<rparr>]\<rparr>)"

subsection \<open>The event loop\<close>

text \<open>
  A timer's callback runs no earlier than its due time, and the timer is then no longer
  pending. \<open>due_callback h w\<close> is the callback the event loop may run for handle \<open>h\<close>.
\<close>

definition due_callback :: "nat \<Rightarrow> editor \<Rightarrow> callback option" where
  "due_callback h w =
     (case map_of (timers w) h of
        None \<Rightarrow> None
      | Some (due, cb) \<Rightarrow> if due \<le> now w then Some cb else None)"

fun run_callback :: "callback \<Rightarrow> editor \<Rightarrow> editor" where
  "run_callback (SaveContent_callback newContent) w = saveContent newContent w"
| "run_callback ResetCopiedContent w = w\<lparr>copiedContent := False\<rparr>"
| "run_callback ResetCopiedLink w = w\<lparr>copiedLink := False\<rparr>"

definition fire :: "nat \<Rightarrow> editor \<Rightarrow> editor" where
  "fire h w =
     (case due_callback h w of
        None \<Rightarrow> w
      | Some cb \<Rightarrow> run_callback cb (clearTimeout h w))"

text \<open>The network answers the \<open>i\<close>-th suspended function, which then runs to its end.\<close>

definition settle :: "nat \<Rightarrow> Clipboard fetch \<Rightarrow> editor \<Rightarrow> editor" where
  "settle i fetch w =
     (if i < length (awaiting w) then
        (let k = awaiting w ! i;
             w = w\<lparr>awaiting := take i (awaiting w) @ drop (Suc i) (awaiting w)\<rparr>
         in case k of
              FetchClipboard_await \<Rightarrow> fetchClipboard_resume fetch w
            | SaveContent_await newContent \<Rightarrow> saveContent_resume newContent fetch w)
      else w)"

text \<open>
  What can happen to a mounted editor: the user types, clicks Save, Copy or Share, time
  passes, a due timer fires, a response arrives. No event is assumed to be disabled by
  what is rendered.
\<close>

datatype event =
    Edit string
  | ClickSave
  | ClickCopy bool
  | ClickShare string bool
  | Wait nat
  | Fire nat
  | Settle nat "Clipboard fetch"

fun step :: "event \<Rightarrow> editor \<Rightarrow> editor" where
  "step (Edit newContent) w = handleContentChange newContent w"
| "step ClickSave w = handleManualSave w"
| "step (ClickCopy written) w = copyContent written w"
| "step (ClickShare href written) w = copyLink href written w"
| "step (Wait d) w = w\<lparr>now := now w + d\<rparr>"
| "step (Fire h) w = fire h w"
| "step (Settle i fetch) w = settle i fetch w"

fun run :: "event list \<Rightarrow> editor \<Rightarrow> editor" where
  "run [] w = w"
| "run (ev # evs) w = run evs (step ev w)"

text \<open>Mounting runs the effect: \<^verbatim>\<open>fetchClipboard\<close> is called on the initial state.\<close>

definition mounted :: "ApiClient \<Rightarrow> string \<Rightarrow> editor" where
  "mounted a cid = fetchClipboard (initial a cid)"

text \<open>
  Read off a sequence of events that starts at time \<open>t\<close>: when the most recent edit
  happened and what it typed (\<open>e\<close> if there is none in the sequence).
\<close>

fun last_edit :: "event list \<Rightarrow> nat \<Rightarrow> (nat \<times> string) option \<Rightarrow> (nat \<times> string) option" where
  "last_edit [] t e = e"
| "last_edit (Edit newContent # evs) t e = last_edit evs t (Some (t, newContent))"
| "last_edit (Wait d # evs) t e = last_edit evs (t + d) e"
| "last_edit (ev # evs) t e = last_edit evs t e"

definition is_save_timer :: "nat \<times> nat \<times> callback \<Rightarrow> bool" where
  "is_save_timer t = (case snd (snd t) of SaveContent_callback c \<Rightarrow> True | _ \<Rightarrow> False)"

definition save_timers :: "editor \<Rightarrow> (nat \<times> nat \<times> callback) list" where
  "save_timers w = filter is_save_timer (timers w)"

text \<open>Example networks for the component.\<close>

definition saved_record :: "string \<Rightarrow> Clipboard" where
  "saved_record c =
     \<lparr>Clipboard_id = ''abc'', Clipboard_content = c,
      created_at = ''2024-01-01T00:00:00Z'', updated_at = ''2024-01-02T00:00:00Z''\<rparr>"

definition store :: "string \<Rightarrow> Clipboard fetch" where
  "store c r = Inr \<lparr>ok = True, status = 200, statusText = ''OK'', json = Inr (saved_record c)\<rparr>"

definition unreachable :: "Clipboard fetch" where
  "unreachable r = Inl (Error ''Failed to fetch'')"

definition missing :: "Clipboard fetch" where
  "missing r = Inr \<lparr>ok = False, status = 404, statusText = ''Not Found'', json = Inl NonError\<rparr>"


text \<open>
  The mounted editor after the user has typed \<^verbatim>\<open>hi\<close>, and the answer of a store that
  saved it.
\<close>

definition typed_hi :: editor where
  "typed_hi = handleContentChange ''hi'' (mounted (api None) ''abc'')"

definition ok_hi :: "Clipboard response" where
  "ok_hi = \<lparr>ok = True, status = 200, statusText = ''OK'', json = Inr (saved_record ''hi'')\<rparr>"

text \<open>The same editor once the save of \<^verbatim>\<open>hi\<close> is out and the user has typed on.\<close>

definition saving_hi :: editor where
  "saving_hi = handleContentChange ''hi!'' (saveContent ''hi'' typed_hi)"

text \<open>
  Two runs of a mounted editor, both after the initial fetch has loaded an empty clipboard:
  the user types \<^verbatim>\<open>a\<close>; and the user types \<^verbatim>\<open>a\<close>, a second later \<^verbatim>\<open>ab\<close>, and then
  1.5 seconds pass.
\<close>

definition loaded_a :: "event list" where
  "loaded_a = [Settle 0 (store []), Edit ''a'']"

definition loaded_ab :: "event list" where
  "loaded_ab = [Settle 0 (store []), Edit ''a'', Wait 1000, Edit ''ab'', Wait 1500]"

section \<open>The debounce timer\<close>

text \<open>
  What holds of the timers in every state the editor reaches, given the most recent edit
  \<open>e\<close>: handles are positive, at most one timer that saves is pending, and it is the one
  \<open>saveTimeoutRef\<close> names, set by that edit and due 1500 ms after it.
\<close>

definition inv :: "editor \<Rightarrow> (nat \<times> string) option \<Rightarrow> bool" where
  "inv w e \<longleftrightarrow>
     0 < next_timer w
     \<and> length (save_timers w) \<le> 1
     \<and> (\<forall>t \<in> set (save_timers w).
           saveTimeoutRef w = Some (fst t) \<and> fst t \<noteq> 0
           \<and> (\<exists>t0 c. e = Some (t0, c) \<and> snd t = (t0 + 1500, SaveContent_callback c)))"

lemma saveContent_frame [simp]:
  "timers (saveContent c w) = timers w"
  "saveTimeoutRef (saveContent c w) = saveTimeoutRef w"
  "next_timer (saveContent c w) = next_timer w"
  "now (saveContent c w) = now w"
  by (simp_all add: saveContent_def Let_def)

lemma saveContent_resume_frame [simp]:
  "timers (saveContent_resume c fetch w) = timers w"
  "saveTimeoutRef (saveContent_resume c fetch w) = saveTimeoutRef w"
  "next_timer (saveContent_resume c fetch w) = next_timer w"
  "now (saveContent_resume c fetch w) = now w"
  by (simp_all add: saveContent_resume_def Let_def split: sum.splits)

lemma fetchClipboard_resume_frame [simp]:
  "timers (fetchClipboard_resume fetch w) = timers w"
  "saveTimeoutRef (fetchClipboard_resume fetch w) = saveTimeoutRef w"
  "next_timer (fetchClipboard_resume fetch w) = next_timer w"
  "now (fetchClipboard_resume fetch w) = now w"
  by (simp_all add: fetchClipboard_resume_def Let_def split: sum.splits)

lemma settle_frame [simp]:
  "timers (settle i fetch w) = timers w"
  "saveTimeoutRef (settle i fetch w) = saveTimeoutRef w"
  "next_timer (settle i fetch w) = next_timer w"
  "now (settle i fetch w) = now w"
  by (simp_all add: settle_def Let_def split: continuation.splits)

lemma clear_save_timeout_frame [simp]:
  "saveTimeoutRef (clear_save_timeout w) = saveTimeoutRef w"
  "next_timer (clear_save_timeout w) = next_timer w"
  "now (clear_save_timeout w) = now w"
  by (simp_all add: clear_save_timeout_def clearTimeout_def split: option.splits)

lemma save_timers_clearTimeout:
  "save_timers (clearTimeout h w) = filter (\<lambda>t. fst t \<noteq> h) (save_timers w)"
  by (simp add: save_timers_def clearTimeout_def) (metis (mono_tags, lifting) filter_cong)

lemma save_timers_clear:
  assumes "inv w e"
  shows "save_timers (clear_save_timeout w) = []"
proof (cases "save_timers w")
  case Nil
  then show ?thesis
    by (simp add: clear_save_timeout_def save_timers_clearTimeout split: option.splits)
next
  case (Cons t ts)
  with assms have ts: "ts = []" and ref: "saveTimeoutRef w = Some (fst t)" and nz: "fst t \<noteq> 0"
    by (simp_all add: inv_def)
  show ?thesis
    using Cons ts ref nz by (simp add: clear_save_timeout_def save_timers_clearTimeout)
qed

lemma save_timers_handleContentChange:
  assumes "inv w e"
  shows "save_timers (handleContentChange c w) = [(next_timer w, now w + 1500, SaveContent_callback c)]"
proof -
  have "save_timers (clear_save_timeout (w\<lparr>content := c, hasChanges := (c \<noteq> lastSavedContent w)\<rparr>)) = []"
    by (rule save_timers_clear [where e = e]) (use assms in \<open>simp add: inv_def save_timers_def\<close>)
  then show ?thesis
    by (simp add: handleContentChange_def setTimeout_def Let_def save_timers_def is_save_timer_def)
qed

lemma inv_handleContentChange:
  assumes "inv w e"
  shows "inv (handleContentChange c w) (Some (now w, c))"
proof -
  have st: "save_timers (handleContentChange c w) = [(next_timer w, now w + 1500, SaveContent_callback c)]"
    by (rule save_timers_handleContentChange [OF assms])
  have ref: "saveTimeoutRef (handleContentChange c w) = Some (next_timer w)"
    by (simp add: handleContentChange_def setTimeout_def Let_def)
  have nt: "next_timer (handleContentChange c w) = Suc (next_timer w)"
    by (simp add: handleContentChange_def setTimeout_def Let_def)
  from assms have "0 < next_timer w" by (simp add: inv_def)
  with st ref nt show ?thesis by (simp add: inv_def)
qed

lemma now_handleContentChange [simp]: "now (handleContentChange c w) = now w"
  by (simp add: handleContentChange_def setTimeout_def Let_def)

lemma inv_filter:
  assumes "inv w e"
    and "save_timers w' = filter P (save_timers w)"
    and "saveTimeoutRef w' = saveTimeoutRef w"
    and "next_timer w \<le> next_timer w'"
  shows "inv w' e"
proof -
  from assms(1) have "length (save_timers w) \<le> 1" by (simp add: inv_def)
  then have "length (filter P (save_timers w)) \<le> 1" by (rule le_trans [OF length_filter_le])
  then have len: "length (save_timers w') \<le> 1" by (simp only: assms(2))
  from assms(1,4) have pos: "0 < next_timer w'" by (simp add: inv_def)
  from assms(1,2,3) have
    "\<forall>t \<in> set (save_timers w').
       saveTimeoutRef w' = Some (fst t) \<and> fst t \<noteq> 0
       \<and> (\<exists>t0 c. e = Some (t0, c) \<and> snd t = (t0 + 1500, SaveContent_callback c))"
    by (simp add: inv_def)
  with len pos show ?thesis by (simp add: inv_def)
qed

lemma inv_same:
  assumes "inv w e"
    and "save_timers w' = save_timers w"
    and "saveTimeoutRef w' = saveTimeoutRef w"
    and "next_timer w \<le> next_timer w'"
  shows "inv w' e"
  using inv_filter [OF assms(1), of w' "\<lambda>t. True"] assms(2-4) by simp

lemma inv_clear_save_timeout:
  assumes "inv w e"
  shows "inv (clear_save_timeout w) e"
proof (cases "\<exists>h. saveTimeoutRef w = Some h \<and> h \<noteq> 0")
  case True
  then obtain h where h: "saveTimeoutRef w = Some h" "h \<noteq> 0" by blast
  then have eq: "clear_save_timeout w = clearTimeout h w" by (simp add: clear_save_timeout_def)
  show ?thesis
    unfolding eq
    by (rule inv_filter [OF assms save_timers_clearTimeout]) (simp_all add: clearTimeout_def)
next
  case False
  then have "clear_save_timeout w = w"
    by (auto simp: clear_save_timeout_def split: option.splits)
  with assms show ?thesis by simp
qed

lemma inv_handleManualSave:
  assumes "inv w e"
  shows "inv (handleManualSave w) e"
  by (rule inv_same [OF inv_clear_save_timeout [OF assms]])
     (simp_all add: handleManualSave_def Let_def save_timers_def)

lemma inv_copyContent:
  assumes "inv w e"
  shows "inv (copyContent written w) e"
  by (rule inv_same [OF assms])
     (simp_all add: copyContent_def setTimeout_def Let_def save_timers_def is_save_timer_def)

lemma inv_copyLink:
  assumes "inv w e"
  shows "inv (copyLink href written w) e"
  by (rule inv_same [OF assms])
     (simp_all add: copyLink_def setTimeout_def Let_def save_timers_def is_save_timer_def)

lemma inv_wait:
  assumes "inv w e"
  shows "inv (w\<lparr>now := now w + d\<rparr>) e"
  by (rule inv_same [OF assms]) (simp_all add: save_timers_def)

lemma inv_settle:
  assumes "inv w e"
  shows "inv (settle i fetch w) e"
  by (rule inv_same [OF assms]) (simp_all add: save_timers_def)

lemma run_callback_frame [simp]:
  "timers (run_callback cb w) = timers w"
  "saveTimeoutRef (run_callback cb w) = saveTimeoutRef w"
  "next_timer (run_callback cb w) = next_timer w"
  "now (run_callback cb w) = now w"
  by (cases cb; simp)+

lemma inv_fire:
  assumes "inv w e"
  shows "inv (fire h w) e"
proof (cases "due_callback h w")
  case None
  with assms show ?thesis by (simp add: fire_def)
next
  case (Some cb)
  have "inv (clearTimeout h w) e"
    by (rule inv_filter [OF assms save_timers_clearTimeout]) (simp_all add: clearTimeout_def)
  then have "inv (run_callback cb (clearTimeout h w)) e"
    by (rule inv_same) (simp_all add: save_timers_def)
  with Some show ?thesis by (simp add: fire_def)
qed

lemma now_step:
  "now (step ev w) = (case ev of Wait d \<Rightarrow> now w + d | _ \<Rightarrow> now w)"
  by (cases ev)
     (simp_all add: handleManualSave_def copyContent_def copyLink_def setTimeout_def
        Let_def fire_def clearTimeout_def split: option.splits)

lemma inv_run:
  assumes "inv w e"
  shows "inv (run evs w) (last_edit evs (now w) e)"
  using assms
proof (induction evs arbitrary: w e)
  case Nil
  then show ?case by simp
next
  case (Cons ev evs)
  show ?case
  proof (cases ev)
    case (Edit c)
    have "inv (run evs (handleContentChange c w)) (last_edit evs (now (handleContentChange c w)) (Some (now w, c)))"
      by (rule Cons.IH [OF inv_handleContentChange [OF Cons.prems]])
    with Edit show ?thesis by simp
  next
    case ClickSave
    with Cons.IH [OF inv_handleManualSave [OF Cons.prems]] now_step [of ClickSave w]
    show ?thesis by simp
  next
    case (ClickCopy written)
    with Cons.IH [OF inv_copyContent [OF Cons.prems], of written] now_step [of "ClickCopy written" w]
    show ?thesis by simp
  next
    case (ClickShare href written)
    with Cons.IH [OF inv_copyLink [OF Cons.prems], of href written]
      now_step [of "ClickShare href written" w]
    show ?thesis by simp
  next
    case (Wait d)
    with Cons.IH [OF inv_wait [OF Cons.prems], of d] show ?thesis by simp
  next
    case (Fire h)
    with Cons.IH [OF inv_fire [OF Cons.prems], of h] now_step [of "Fire h" w]
    show ?thesis by simp
  next
    case (Settle i fetch)
    with Cons.IH [OF inv_settle [OF Cons.prems], of i fetch] show ?thesis by simp
  qed
qed

lemma inv_mounted: "inv (mounted a cid) None"
  by (simp add: inv_def mounted_def fetchClipboard_def initial_def Let_def save_timers_def)

lemma now_mounted: "now (mounted a cid) = 0"
  by (simp add: mounted_def fetchClipboard_def initial_def Let_def)

lemma due_save_timer:
  assumes "due_callback h w = Some (SaveContent_callback c)"
  shows "\<exists>due. (h, due, SaveContent_callback c) \<in> set (save_timers w) \<and> due \<le> now w"
proof -
  from assms obtain due where m: "map_of (timers w) h = Some (due, SaveContent_callback c)"
    and d: "due \<le> now w"
    by (auto simp: due_callback_def split: option.splits if_splits)
  from m have "(h, due, SaveContent_callback c) \<in> set (timers w)" by (rule map_of_SomeD)
  then have "(h, due, SaveContent_callback c) \<in> set (save_timers w)"
    by (simp add: save_timers_def is_save_timer_def)
  with d show ?thesis by blast
qed

subsection \<open>Where requests come from\<close>

lemma sent_frame [simp]:
  "sent (clearTimeout h w) = sent w"
  "sent (clear_save_timeout w) = sent w"
  "sent (saveContent_resume c fetch w) = sent w"
  "sent (fetchClipboard_resume fetch w) = sent w"
  "sent (handleContentChange c w) = sent w"
  "sent (copyContent written w) = sent w"
  "sent (copyLink href written w) = sent w"
  by (simp_all add: clearTimeout_def clear_save_timeout_def saveContent_resume_def
      fetchClipboard_resume_def handleContentChange_def copyContent_def copyLink_def
      setTimeout_def Let_def split: option.splits sum.splits)

lemma awaiting_frame [simp]:
  "awaiting (clearTimeout h w) = awaiting w"
  "awaiting (clear_save_timeout w) = awaiting w"
  "awaiting (handleContentChange c w) = awaiting w"
  by (simp_all add: clearTimeout_def clear_save_timeout_def handleContentChange_def
      setTimeout_def Let_def split: option.splits)

lemma context_frame [simp]:
  "client (clearTimeout h w) = client w"
  "clipboardId (clearTimeout h w) = clipboardId w"
  "lastSavedContent (clearTimeout h w) = lastSavedContent w"
  "client (clear_save_timeout w) = client w"
  "clipboardId (clear_save_timeout w) = clipboardId w"
  "lastSavedContent (clear_save_timeout w) = lastSavedContent w"
  "content (clear_save_timeout w) = content w"
  by (simp_all add: clearTimeout_def clear_save_timeout_def split: option.splits)

lemma sent_saveContent:
  "sent (saveContent c w) =
     (if c = lastSavedContent w then sent w
      else sent w @ [updateClipboard_request (client w) (clipboardId w) c])"
  by (simp add: saveContent_def Let_def)

lemma sent_settle [simp]: "sent (settle i fetch w) = sent w"
  by (simp add: settle_def Let_def split: continuation.splits)

lemma fire_save:
  assumes "due_callback h w = Some (SaveContent_callback c)"
  shows "fire h w = saveContent c (clearTimeout h w)"
  using assms by (simp add: fire_def)

lemma sent_fire:
  assumes "sent (fire h w) \<noteq> sent w"
  shows "\<exists>c. due_callback h w = Some (SaveContent_callback c) \<and> c \<noteq> lastSavedContent w
     \<and> sent (fire h w) = sent w @ [updateClipboard_request (client w) (clipboardId w) c]"
proof (cases "due_callback h w")
  case None
  with assms show ?thesis by (simp add: fire_def)
next
  case (Some cb)
  show ?thesis
  proof (cases cb)
    case (SaveContent_callback c)
    with Some assms show ?thesis
      by (simp add: fire_def sent_saveContent split: if_splits)
  next
    case ResetCopiedContent
    with Some assms show ?thesis by (simp add: fire_def)
  next
    case ResetCopiedLink
    with Some assms show ?thesis by (simp add: fire_def)
  qed
qed

lemma sent_step:
  assumes "sent (step ev w) \<noteq> sent w"
  shows "(ev = ClickSave \<and> content w \<noteq> lastSavedContent w
          \<and> sent (step ev w) = sent w @ [updateClipboard_request (client w) (clipboardId w) (content w)])
       \<or> (\<exists>h c. ev = Fire h \<and> due_callback h w = Some (SaveContent_callback c)
             \<and> c \<noteq> lastSavedContent w
             \<and> sent (step ev w) = sent w @ [updateClipboard_request (client w) (clipboardId w) c])"
proof (cases ev)
  case (Edit c)
  with assms show ?thesis by simp
next
  case ClickSave
  with assms show ?thesis
    by (simp add: handleManualSave_def Let_def sent_saveContent split: if_splits)
next
  case (ClickCopy written)
  with assms show ?thesis by simp
next
  case (ClickShare href written)
  with assms show ?thesis by simp
next
  case (Wait d)
  with assms show ?thesis by simp
next
  case (Fire h)
  with assms sent_fire [of h w] show ?thesis by simp
next
  case (Settle i fetch)
  with assms show ?thesis by simp
qed

lemma props_step:
  "client (step ev w) = client w \<and> clipboardId (step ev w) = clipboardId w"
proof (cases ev)
  case (Fire h)
  show ?thesis
  proof (cases "due_callback h w")
    case None
    with Fire show ?thesis by (simp add: fire_def)
  next
    case (Some cb)
    with Fire show ?thesis by (cases cb) (simp_all add: fire_def saveContent_def Let_def)
  qed
next
  case (Settle i fetch)
  then show ?thesis
    by (simp add: settle_def saveContent_resume_def fetchClipboard_resume_def Let_def
        split: continuation.splits sum.splits)
qed (simp_all add: handleContentChange_def handleManualSave_def copyContent_def copyLink_def
      setTimeout_def saveContent_def Let_def)

lemma props_run:
  "client (run evs w) = client w \<and> clipboardId (run evs w) = clipboardId w"
  by (induction evs arbitrary: w) (simp_all add: props_step)

lemma props_mounted: "client (mounted a cid) = a \<and> clipboardId (mounted a cid) = cid"
  by (simp add: mounted_def fetchClipboard_def initial_def Let_def)

text \<open>
  Claim C1, as the code has it. In every state reached from the mounted editor by any
  sequence of events:
  \<^item> at most one timer that saves is pending;
  \<^item> \<^verbatim>\<open>handleContentChange\<close> leaves exactly one, the new one, due 1500 ms from now with the
    content just typed, and itself sends nothing and suspends nothing: it does not save;
  \<^item> when a timer that saves is due, firing it is the call of \<^verbatim>\<open>saveContent\<close> on its
    content (with the timer gone); that content is the one of the most recent edit, and
    at least 1500 ms have passed since that edit;
  \<^item> a click on Save is the call of \<^verbatim>\<open>saveContent\<close> on the current content, at once, after
    the pending timer has been cleared;
  \<^item> an event that sends a request is either that click, or the firing of a timer at
    least 1500 ms after the most recent edit, and the request then sent is the update
    with that edit's content.
\<close>

theorem autosave_debounced:
  "length (save_timers (run evs (mounted a cid))) \<le> 1
   \<and> save_timers (handleContentChange c (run evs (mounted a cid))) =
       [(next_timer (run evs (mounted a cid)), now (run evs (mounted a cid)) + 1500,
         SaveContent_callback c)]
   \<and> sent (handleContentChange c (run evs (mounted a cid))) = sent (run evs (mounted a cid))
   \<and> awaiting (handleContentChange c (run evs (mounted a cid))) = awaiting (run evs (mounted a cid))
   \<and> (due_callback h (run evs (mounted a cid)) = Some (SaveContent_callback c') \<longrightarrow>
        step (Fire h) (run evs (mounted a cid)) =
          saveContent c' (clearTimeout h (run evs (mounted a cid)))
        \<and> (\<exists>t. last_edit evs 0 None = Some (t, c') \<and> t + 1500 \<le> now (run evs (mounted a cid))))
   \<and> step ClickSave (run evs (mounted a cid)) =
        saveContent (content (run evs (mounted a cid))) (clear_save_timeout (run evs (mounted a cid)))
   \<and> save_timers (step ClickSave (run evs (mounted a cid))) = []
   \<and> (sent (step ev (run evs (mounted a cid))) \<noteq> sent (run evs (mounted a cid)) \<longrightarrow>
        (ev = ClickSave
         \<and> sent (step ev (run evs (mounted a cid))) = sent (run evs (mounted a cid)) @
             [updateClipboard_request a cid (content (run evs (mounted a cid)))])
        \<or> (\<exists>h' t c''. ev = Fire h' \<and> last_edit evs 0 None = Some (t, c'')
              \<and> t + 1500 \<le> now (run evs (mounted a cid))
              \<and> sent (step ev (run evs (mounted a cid))) = sent (run evs (mounted a cid)) @
                  [updateClipboard_request a cid c'']))"
proof -
  let ?w = "run evs (mounted a cid)"
  have i: "inv ?w (last_edit evs 0 None)"
    using inv_run [OF inv_mounted, of evs a cid] by (simp add: now_mounted)
  have timed: "\<exists>t. last_edit evs 0 None = Some (t, x) \<and> t + 1500 \<le> now ?w"
    if "due_callback k ?w = Some (SaveContent_callback x)" for k x
  proof -
    from due_save_timer [OF that] obtain due
      where mem: "(k, due, SaveContent_callback x) \<in> set (save_timers ?w)" and d: "due \<le> now ?w"
      by blast
    from i mem obtain t0 c0 where "last_edit evs 0 None = Some (t0, c0)"
      and "(due, SaveContent_callback x) = (t0 + 1500, SaveContent_callback c0)"
      by (fastforce simp: inv_def)
    with d show ?thesis by simp
  qed
  have ctx: "client ?w = a" "clipboardId ?w = cid"
    by (simp_all add: props_run props_mounted)
  have 1: "length (save_timers ?w) \<le> 1" using i by (simp add: inv_def)
  have 2: "save_timers (handleContentChange c ?w) =
       [(next_timer ?w, now ?w + 1500, SaveContent_callback c)]"
    by (rule save_timers_handleContentChange [OF i])
  have 3: "sent (handleContentChange c ?w) = sent ?w" "awaiting (handleContentChange c ?w) = awaiting ?w"
    by simp_all
  have 4: "step (Fire h) ?w = saveContent c' (clearTimeout h ?w)
        \<and> (\<exists>t. last_edit evs 0 None = Some (t, c') \<and> t + 1500 \<le> now ?w)"
    if "due_callback h ?w = Some (SaveContent_callback c')"
    using that timed [OF that] by (simp add: fire_save)
  have 5: "step ClickSave ?w = saveContent (content ?w) (clear_save_timeout ?w)"
    by (simp add: handleManualSave_def Let_def)
  have 6: "save_timers (step ClickSave ?w) = []"
    using save_timers_clear [OF i] by (simp add: handleManualSave_def Let_def save_timers_def)
  have 7: "(ev = ClickSave
         \<and> sent (step ev ?w) = sent ?w @ [updateClipboard_request a cid (content ?w)])
        \<or> (\<exists>h' t c''. ev = Fire h' \<and> last_edit evs 0 None = Some (t, c'')
              \<and> t + 1500 \<le> now ?w
              \<and> sent (step ev ?w) = sent ?w @ [updateClipboard_request a cid c''])"
    if "sent (step ev ?w) \<noteq> sent ?w"
  proof -
    from sent_step [OF that] show ?thesis
    proof
      assume "ev = ClickSave \<and> content ?w \<noteq> lastSavedContent ?w
          \<and> sent (step ev ?w) = sent ?w @ [updateClipboard_request (client ?w) (clipboardId ?w) (content ?w)]"
      then have e: "ev = ClickSave"
        and s: "sent (step ev ?w) =
          sent ?w @ [updateClipboard_request (client ?w) (clipboardId ?w) (content ?w)]"
        by blast+
      from s have "sent (step ev ?w) = sent ?w @ [updateClipboard_request a cid (content ?w)]"
        by (simp only: ctx)
      with e show ?thesis by blast
    next
      assume "\<exists>h c. ev = Fire h \<and> due_callback h ?w = Some (SaveContent_callback c)
             \<and> c \<noteq> lastSavedContent ?w
             \<and> sent (step ev ?w) = sent ?w @ [updateClipboard_request (client ?w) (clipboardId ?w) c]"
      then obtain k x where e: "ev = Fire k" and d: "due_callback k ?w = Some (SaveContent_callback x)"
        and s: "sent (step ev ?w) = sent ?w @ [updateClipboard_request (client ?w) (clipboardId ?w) x]"
        by blast
      from timed [OF d] obtain t where "last_edit evs 0 None = Some (t, x)" "t + 1500 \<le> now ?w"
        by blast
      moreover from s have "sent (step ev ?w) = sent ?w @ [updateClipboard_request a cid x]"
        by (simp only: ctx)
      ultimately show ?thesis using e by blast
    qed
  qed
  from 1 2 3 4 5 6 7 show ?thesis by blast
qed

text \<open>
  The theorem at a concrete run: the clipboard has loaded, the user types \<^verbatim>\<open>a\<close>, a second
  later \<^verbatim>\<open>ab\<close>, and 1.5 seconds pass. The second timer is due; firing it calls
  \<^verbatim>\<open>saveContent\<close> on \<^verbatim>\<open>ab\<close> and the update leaves.
\<close>

theorem autosave_debounced_witness:
  "due_callback 2 (run loaded_ab (mounted (api None) ''abc'')) = Some (SaveContent_callback ''ab'')
   \<and> \<not> isLoading (run loaded_ab (mounted (api None) ''abc''))
   \<and> last_edit loaded_ab 0 None = Some (1000, ''ab'')
   \<and> now (run loaded_ab (mounted (api None) ''abc'')) = 2500
   \<and> step (Fire 2) (run loaded_ab (mounted (api None) ''abc'')) =
       saveContent ''ab'' (clearTimeout 2 (run loaded_ab (mounted (api None) ''abc'')))
   \<and> sent (step (Fire 2) (run loaded_ab (mounted (api None) ''abc''))) =
       sent (run loaded_ab (mounted (api None) ''abc'')) @
         [updateClipboard_request (api None) ''abc'' ''ab'']"
proof -
  let ?w = "run loaded_ab (mounted (api None) ''abc'')"
  have g: "getClipboard (api None) (store []) ''abc'' = Inr (saved_record [])"
    by (simp add: getClipboard_def store_def)
  have w: "?w = (initial (api None) ''abc'')
      \<lparr>sent := [getClipboard_request (api None) ''abc''],
       clipboard := Some (saved_record []), isLoading := False,
       content := ''ab'', hasChanges := True, saveTimeoutRef := Some 2,
       timers := [(2, 2500, SaveContent_callback ''ab'')], next_timer := 3, now := 2500\<rparr>"
    by (simp add: loaded_ab_def mounted_def fetchClipboard_def settle_def fetchClipboard_resume_def
        g saved_record_def handleContentChange_def clear_save_timeout_def clearTimeout_def
        setTimeout_def initial_def Let_def)
  have d: "due_callback 2 ?w = Some (SaveContent_callback ''ab'')"
    by (simp add: w due_callback_def initial_def)
  have l: "last_edit loaded_ab 0 None = Some (1000, ''ab'')"
    by (simp add: loaded_ab_def)
  have n: "now ?w = 2500" "\<not> isLoading ?w" "lastSavedContent ?w = []"
    by (simp_all add: w initial_def)
  have s: "sent (step (Fire 2) ?w) \<noteq> sent ?w"
    by (simp add: fire_def d sent_saveContent n)
  from autosave_debounced [of loaded_ab "api None" "''abc''" "''x''" 2 "''ab''" "Fire 2"] d l n s
  show ?thesis by simp
qed

text \<open>
  Claim C1 as stated fails for the manual save: the clipboard has loaded, the user types
  \<^verbatim>\<open>a\<close> and clicks Save, which is enabled. \<^verbatim>\<open>saveContent\<close> is called and the update leaves
  at the instant of the edit, not 1.5 seconds after it.
\<close>

theorem autosave_debounced_counterexample:
  "\<not> isLoading (run loaded_a (mounted (api None) ''abc''))
   \<and> error (run loaded_a (mounted (api None) ''abc'')) = None
   \<and> hasChanges (run loaded_a (mounted (api None) ''abc''))
   \<and> \<not> isSaving (run loaded_a (mounted (api None) ''abc''))
   \<and> last_edit loaded_a 0 None = Some (0, ''a'')
   \<and> now (run loaded_a (mounted (api None) ''abc'')) = 0
   \<and> step ClickSave (run loaded_a (mounted (api None) ''abc'')) =
       saveContent ''a'' (clear_save_timeout (run loaded_a (mounted (api None) ''abc'')))
   \<and> sent (step ClickSave (run loaded_a (mounted (api None) ''abc''))) =
       sent (run loaded_a (mounted (api None) ''abc'')) @
         [updateClipboard_request (api None) ''abc'' ''a'']
   \<and> \<not> (0 + 1500 \<le> now (run loaded_a (mounted (api None) ''abc'')))"
proof -
  let ?w = "run loaded_a (mounted (api None) ''abc'')"
  have g: "getClipboard (api None) (store []) ''abc'' = Inr (saved_record [])"
    by (simp add: getClipboard_def store_def)
  have w: "?w = (initial (api None) ''abc'')
      \<lparr>sent := [getClipboard_request (api None) ''abc''],
       clipboard := Some (saved_record []), isLoading := False,
       content := ''a'', hasChanges := True, saveTimeoutRef := Some 1,
       timers := [(1, 1500, SaveContent_callback ''a'')], next_timer := 2\<rparr>"
    by (simp add: loaded_a_def mounted_def fetchClipboard_def settle_def fetchClipboard_resume_def
        g saved_record_def handleContentChange_def clear_save_timeout_def clearTimeout_def
        setTimeout_def initial_def Let_def)
  have f: "\<not> isLoading ?w" "error ?w = None" "hasChanges ?w" "\<not> isSaving ?w" "now ?w = 0"
    "content ?w = ''a''" "lastSavedContent ?w = []" "client ?w = api None" "clipboardId ?w = ''abc''"
    by (simp_all add: w initial_def)
  have l: "last_edit loaded_a 0 None = Some (0, ''a'')"
    by (simp add: loaded_a_def)
  have c: "step ClickSave ?w = saveContent ''a'' (clear_save_timeout ?w)"
    by (simp add: handleManualSave_def Let_def f)
  have s: "sent (step ClickSave ?w) = sent ?w @ [updateClipboard_request (api None) ''abc'' ''a'']"
    by (simp add: handleManualSave_def Let_def sent_saveContent f)
  from f l c s show ?thesis by simp
qed

section \<open>The REST client\<close>

text \<open>
  Claim C4, as the code has it. The four operations are POST /clipboard/new,
  GET /clipboard/\{id\}, PUT /clipboard/\{id\} and GET /health. Each of create, read and
  update throws exactly when \<^verbatim>\<open>fetch\<close> rejects, or the response is not ok, or
  \<^verbatim>\<open>response.json()\<close> rejects.
\<close>

theorem rest_client_throws:
  "http_method (createClipboard_request this) = ''POST''
   \<and> url (createClipboard_request this) = baseUrl this @ ''/clipboard/new''
   \<and> http_method (getClipboard_request this cid) = ''GET''
   \<and> url (getClipboard_request this cid) = baseUrl this @ ''/clipboard/'' @ cid
   \<and> http_method (updateClipboard_request this cid c) = ''PUT''
   \<and> url (updateClipboard_request this cid c) = baseUrl this @ ''/clipboard/'' @ cid
   \<and> http_method (checkHealth_request this) = ''GET''
   \<and> url (checkHealth_request this) = baseUrl this @ ''/health''
   \<and> (isl (createClipboard this fetch) \<longleftrightarrow>
        (case fetch (createClipboard_request this) of
           Inl e \<Rightarrow> True
         | Inr response \<Rightarrow> \<not> ok response \<or> isl (json response)))
   \<and> (isl (getClipboard this fetch cid) \<longleftrightarrow>
        (case fetch (getClipboard_request this cid) of
           Inl e \<Rightarrow> True
         | Inr response \<Rightarrow> \<not> ok response \<or> isl (json response)))
   \<and> (isl (updateClipboard this fetch cid c) \<longleftrightarrow>
        (case fetch (updateClipboard_request this cid c) of
           Inl e \<Rightarrow> True
         | Inr response \<Rightarrow> \<not> ok response \<or> isl (json response)))"
proof -
  have req: "http_method (createClipboard_request this) = ''POST''"
    "url (createClipboard_request this) = baseUrl this @ ''/clipboard/new''"
    "http_method (getClipboard_request this cid) = ''GET''"
    "url (getClipboard_request this cid) = baseUrl this @ ''/clipboard/'' @ cid"
    "http_method (updateClipboard_request this cid c) = ''PUT''"
    "url (updateClipboard_request this cid c) = baseUrl this @ ''/clipboard/'' @ cid"
    "http_method (checkHealth_request this) = ''GET''"
    "url (checkHealth_request this) = baseUrl this @ ''/health''"
    by (simp_all add: http_method_def createClipboard_request_def getClipboard_request_def
        updateClipboard_request_def checkHealth_request_def)
  have cr: "isl (createClipboard this fetch) \<longleftrightarrow>
        (case fetch (createClipboard_request this) of
           Inl e \<Rightarrow> True
         | Inr response \<Rightarrow> \<not> ok response \<or> isl (json response))"
    by (simp add: createClipboard_def split: sum.splits)
  have ge: "isl (getClipboard this fetch cid) \<longleftrightarrow>
        (case fetch (getClipboard_request this cid) of
           Inl e \<Rightarrow> True
         | Inr response \<Rightarrow> \<not> ok response \<or> isl (json response))"
    by (simp add: getClipboard_def split: sum.splits)
  have up: "isl (updateClipboard this fetch cid c) \<longleftrightarrow>
        (case fetch (updateClipboard_request this cid c) of
           Inl e \<Rightarrow> True
         | Inr response \<Rightarrow> \<not> ok response \<or> isl (json response))"
    by (simp add: updateClipboard_def split: sum.splits)
  from req cr ge up show ?thesis by simp
qed

text \<open>
  The theorem at concrete servers: a body that is not JSON, an identifier the store does
  not have, one it has, and a network that is down.
\<close>

theorem rest_client_throws_witness:
  "isl (getClipboard (api None) html_server ''abc'')
   \<and> isl (getClipboard (api None) abc_server ''nope'')
   \<and> \<not> isl (getClipboard (api None) abc_server ''abc'')
   \<and> isl (updateClipboard (api None) offline ''abc'' ''hello'')"
proof -
  have u: "url (getClipboard_request (api None) ''nope'') \<noteq> default_base_url @ ''/clipboard/abc''"
    "url (getClipboard_request (api None) ''nope'') \<noteq> default_base_url @ ''/health''"
    "url (getClipboard_request (api None) ''nope'') \<noteq> default_base_url @ ''/clipboard/new''"
    "url (getClipboard_request (api None) ''abc'') = default_base_url @ ''/clipboard/abc''"
    by (simp_all add: getClipboard_request_def api_def API_BASE_URL_def)
  show ?thesis
    using rest_client_throws [of "api None" "''abc''" "''hello''" html_server]
      rest_client_throws [of "api None" "''nope''" "''hello''" abc_server]
      rest_client_throws [of "api None" "''abc''" "''hello''" abc_server]
      rest_client_throws [of "api None" "''abc''" "''hello''" offline]
    by (simp add: u html_server_def html_response_def abc_server_def offline_def)
qed

text \<open>
  Claim C4 as stated fails: an ok response whose body is not JSON makes
  \<^verbatim>\<open>getClipboard\<close> throw, and so does a rejected \<^verbatim>\<open>fetch\<close>, where there is no response.
\<close>

theorem rest_client_throws_counterexample:
  "html_server (getClipboard_request (api None) ''abc'') = Inr html_response
   \<and> \<not> (isl (getClipboard (api None) html_server ''abc'') \<longleftrightarrow> \<not> ok html_response)
   \<and> offline (getClipboard_request (api None) ''abc'') = Inl (Error ''Failed to fetch'')
   \<and> isl (getClipboard (api None) offline ''abc'')"
  by (simp add: html_server_def html_response_def offline_def getClipboard_def)

section \<open>What the client returns\<close>

text \<open>
  Claim C5, as the code has it. The declared \<^verbatim>\<open>Clipboard\<close> is the record of the four string
  fields, and a record is its four fields. \<^verbatim>\<open>getClipboard\<close> and \<^verbatim>\<open>updateClipboard\<close> return
  the parsed body of an ok response as it is, whatever it is: nothing checks it against
  the declaration.
\<close>

theorem returns_parsed_body:
  "(getClipboard this fetch cid = Inr v \<longleftrightarrow>
      (case fetch (getClipboard_request this cid) of
         Inl e \<Rightarrow> False
       | Inr response \<Rightarrow> ok response \<and> json response = Inr v))
   \<and> (updateClipboard this fetch cid c = Inr v \<longleftrightarrow>
      (case fetch (updateClipboard_request this cid c) of
         Inl e \<Rightarrow> False
       | Inr response \<Rightarrow> ok response \<and> json response = Inr v))
   \<and> (d :: Clipboard) =
       \<lparr>Clipboard_id = Clipboard_id d, Clipboard_content = Clipboard_content d,
        created_at = created_at d, updated_at = updated_at d\<rparr>"
proof -
  have g: "getClipboard this fetch cid = Inr v \<longleftrightarrow>
      (case fetch (getClipboard_request this cid) of
         Inl e \<Rightarrow> False
       | Inr response \<Rightarrow> ok response \<and> json response = Inr v)"
    by (simp add: getClipboard_def split: sum.splits)
  have u: "updateClipboard this fetch cid c = Inr v \<longleftrightarrow>
      (case fetch (updateClipboard_request this cid c) of
         Inl e \<Rightarrow> False
       | Inr response \<Rightarrow> ok response \<and> json response = Inr v)"
    by (simp add: updateClipboard_def split: sum.splits)
  from g u show ?thesis by simp
qed

text \<open>
  The theorem at the store of \<^verbatim>\<open>abc\<close>: the body has the declared shape, and so has the
  value returned.
\<close>

theorem returns_parsed_body_witness:
  "getClipboard (api None) abc_server ''abc'' = Inr (abc_json ''hello'')
   \<and> is_Clipboard (abc_json ''hello'')"
proof -
  have u: "url (getClipboard_request (api None) ''abc'') = default_base_url @ ''/clipboard/abc''"
    by (simp add: getClipboard_request_def api_def API_BASE_URL_def)
  have "getClipboard (api None) abc_server ''abc'' = Inr (abc_json ''hello'')"
    using returns_parsed_body [of "api None" abc_server "''abc''" "abc_json ''hello''"]
    by (simp add: u abc_server_def)
  moreover have "is_Clipboard (abc_json ''hello'')"
    by (simp add: is_Clipboard_def abc_json_def Clipboard_fields_def is_string_def)
  ultimately show ?thesis by simp
qed

text \<open>
  Claim C5 as stated fails: a server that answers with an object holding only an
  \<^verbatim>\<open>id\<close> makes \<^verbatim>\<open>getClipboard\<close> return that object, which lacks three of the four fields.
\<close>

theorem returns_parsed_body_counterexample:
  "getClipboard (api None) id_only_server ''abc'' = Inr id_only \<and> \<not> is_Clipboard id_only"
  by (simp add: getClipboard_def id_only_server_def id_only_def is_Clipboard_def
      Clipboard_fields_def is_string_def)

text \<open>
  Claim C6. \<^verbatim>\<open>updateClipboard\<close> sends \<^verbatim>\<open>JSON.stringify({ content })\<close>, that is the quoted
  content between \<^verbatim>\<open>{"content":\<close> and \<^verbatim>\<open>}\<close>, with the header Content-Type:
  application/json; create, read and update return \<^verbatim>\<open>response.json()\<close> of an ok response.
\<close>

theorem json_over_rest:
  "body (updateClipboard_request this cid c) = Some (JSON_stringify (JObject [(''content'', JString c)]))
   \<and> JSON_stringify (JObject [(''content'', JString c)])
       = ''{'' @ QuoteJSONString ''content'' @ '':'' @ QuoteJSONString c @ ''}''
   \<and> headers (updateClipboard_request this cid c) = [(''Content-Type'', ''application/json'')]
   \<and> (fetch (createClipboard_request this) = Inr response \<and> ok response
        \<longrightarrow> createClipboard this fetch = json response)
   \<and> (fetch (getClipboard_request this cid) = Inr response \<and> ok response
        \<longrightarrow> getClipboard this fetch cid = json response)
   \<and> (fetch (updateClipboard_request this cid c) = Inr response \<and> ok response
        \<longrightarrow> updateClipboard this fetch cid c = json response)"
  by (simp add: updateClipboard_request_def createClipboard_def getClipboard_def
      updateClipboard_def)

text \<open>
  The theorem at a content with a double quote and a line feed, both escaped in the body.
\<close>

theorem json_over_rest_witness:
  "body (updateClipboard_request (api None) ''abc'' [CHR ''a'', CHR 0x22, CHR 0x0A])
     = Some [CHR ''{'', CHR 0x22, CHR ''c'', CHR ''o'', CHR ''n'', CHR ''t'', CHR ''e'', CHR ''n'',
             CHR ''t'', CHR 0x22, CHR '':'', CHR 0x22, CHR ''a'', CHR 0x5C, CHR 0x22, CHR 0x5C,
             CHR ''n'', CHR 0x22, CHR ''}'']
   \<and> id_only_server (updateClipboard_request (api None) ''abc'' [CHR ''a'', CHR 0x22, CHR 0x0A])
       = Inr \<lparr>ok = True, status = 200, statusText = ''OK'', json = Inr id_only\<rparr>
   \<and> updateClipboard (api None) id_only_server ''abc'' [CHR ''a'', CHR 0x22, CHR 0x0A] = Inr id_only"
  using json_over_rest [of "api None" "''abc''" "[CHR ''a'', CHR 0x22, CHR 0x0A]" id_only_server
      "\<lparr>ok = True, status = 200, statusText = ''OK'', json = Inr id_only\<rparr>"]
  by (simp add: id_only_server_def QuoteJSONString_def quote_char_def)



text \<open>
  Claim C8. \<^verbatim>\<open>checkHealth\<close> always returns and never throws: it asks GET /health and
  returns whether the response is ok, and false when \<^verbatim>\<open>fetch\<close> rejects.
\<close>

theorem checkHealth_never_throws:
  "checkHealth this fetch =
     Inr (case fetch (checkHealth_request this) of Inl e \<Rightarrow> False | Inr response \<Rightarrow> ok response)
   \<and> http_method (checkHealth_request this) = ''GET''
   \<and> url (checkHealth_request this) = baseUrl this @ ''/health''"
  by (simp add: checkHealth_def checkHealth_request_def http_method_def split: sum.splits)

text \<open>
  The theorem with the network down and with the store up.
\<close>

theorem checkHealth_never_throws_witness:
  "checkHealth (api None) offline = Inr False \<and> checkHealth (api None) abc_server = Inr True"
proof -
  have u: "url (checkHealth_request (api None)) \<noteq> default_base_url @ ''/clipboard/abc''"
    "url (checkHealth_request (api None)) = default_base_url @ ''/health''"
    by (simp_all add: checkHealth_request_def api_def API_BASE_URL_def default_base_url_def)
  show ?thesis
    using checkHealth_never_throws [of "api None" offline]
      checkHealth_never_throws [of "api None" abc_server]
    by (simp add: u offline_def abc_server_def)
qed

section \<open>The two copies of the client\<close>

text \<open>
  Claim C10. On a network whose answer does not depend on the \<^verbatim>\<open>mode\<close> member, each of
  the four operations of the second copy returns the same value, or throws the same
  error, as the one in src/lib/api.ts. The requests of create and read differ only by
  \<^verbatim>\<open>mode: 'cors'\<close>, those of update and health-check not at all; the rest of the difference
  is what the copy writes to the console.
\<close>

theorem copies_equivalent:
  assumes "\<And>r m. fetch (r\<lparr>mode := m\<rparr>) = fetch r"
  shows "snd (createClipboard_embedded this fetch) = createClipboard this fetch
   \<and> snd (getClipboard_embedded this fetch cid) = getClipboard this fetch cid
   \<and> snd (updateClipboard_embedded this fetch cid c) = updateClipboard this fetch cid c
   \<and> snd (checkHealth_embedded this fetch) = checkHealth this fetch
   \<and> createClipboard_request_embedded this = (createClipboard_request this)\<lparr>mode := Some ''cors''\<rparr>
   \<and> getClipboard_request_embedded this cid = (getClipboard_request this cid)\<lparr>mode := Some ''cors''\<rparr>
   \<and> updateClipboard_request_embedded this cid c = updateClipboard_request this cid c
   \<and> checkHealth_request_embedded this = checkHealth_request this"
proof -
  have rc: "createClipboard_request_embedded this = (createClipboard_request this)\<lparr>mode := Some ''cors''\<rparr>"
    by (simp add: createClipboard_request_embedded_def createClipboard_request_def)
  have rg: "getClipboard_request_embedded this cid = (getClipboard_request this cid)\<lparr>mode := Some ''cors''\<rparr>"
    by (simp add: getClipboard_request_embedded_def getClipboard_request_def)
  have ru: "updateClipboard_request_embedded this cid c = updateClipboard_request this cid c"
    by (simp add: updateClipboard_request_embedded_def updateClipboard_request_def)
  have rh: "checkHealth_request_embedded this = checkHealth_request this"
    by (simp add: checkHealth_request_embedded_def checkHealth_request_def)
  have c: "snd (createClipboard_embedded this fetch) = createClipboard this fetch"
    unfolding createClipboard_embedded_def createClipboard_def rc assms
    by (simp split: sum.splits)
  have g: "snd (getClipboard_embedded this fetch cid) = getClipboard this fetch cid"
    unfolding getClipboard_embedded_def getClipboard_def rg assms
    by (simp add: Let_def split: sum.splits)
  have u: "snd (updateClipboard_embedded this fetch cid c) = updateClipboard this fetch cid c"
    unfolding updateClipboard_embedded_def updateClipboard_def ru
    by (simp split: sum.splits)
  have h: "snd (checkHealth_embedded this fetch) = checkHealth this fetch"
    unfolding checkHealth_embedded_def checkHealth_def rh
    by (simp split: sum.splits)
  from rc rg ru rh c g u h show ?thesis by simp
qed

text \<open>
  The theorem at the store of \<^verbatim>\<open>abc\<close>, with the two lines the copy logs.
\<close>

theorem copies_equivalent_witness:
  "(\<forall>r m. abc_server (r\<lparr>mode := m\<rparr>) = abc_server r)
   \<and> snd (getClipboard_embedded (api None) abc_server ''abc'') = Inr (abc_json ''hello'')
   \<and> getClipboard (api None) abc_server ''abc'' = Inr (abc_json ''hello'')
   \<and> fst (getClipboard_embedded (api None) abc_server ''abc'') =
       [Console_log [Text ''Fetching clipboard:'', Text ''abc''],
        Console_log [Text ''Get clipboard response:'', Data (abc_json ''hello'')]]"
proof -
  have m: "\<And>r m. abc_server (r\<lparr>mode := m\<rparr>) = abc_server r"
    by (simp add: abc_server_def)
  have u: "url (getClipboard_request (api None) ''abc'') = default_base_url @ ''/clipboard/abc''"
    by (simp add: getClipboard_request_def api_def API_BASE_URL_def)
  have g: "getClipboard (api None) abc_server ''abc'' = Inr (abc_json ''hello'')"
    by (simp add: getClipboard_def u abc_server_def)
  have f: "fst (getClipboard_embedded (api None) abc_server ''abc'') =
       [Console_log [Text ''Fetching clipboard:'', Text ''abc''],
        Console_log [Text ''Get clipboard response:'', Data (abc_json ''hello'')]]"
    by code_simp
  from copies_equivalent [of abc_server "api None" "''abc''" "''x''", OF m] m g f
  show ?thesis by simp
qed

section \<open>Saving\<close>

text \<open>
  Claim C2. For a content \<open>c\<close> that differs from the last saved one, \<^verbatim>\<open>saveContent\<close> hands
  the request of \<^verbatim>\<open>updateClipboard(clipboardId, c)\<close> to \<^verbatim>\<open>fetch\<close> and suspends. When the answer
  is an ok response whose body parses to \<open>data\<close>, resuming it, in whatever state \<open>w'\<close> the
  editor then is, sets \<open>clipboard\<close> to \<open>data\<close>, \<open>lastSavedContent\<close> to \<open>c\<close>, \<open>hasChanges\<close> to false
  and \<open>isSaving\<close> to false. The last conjunct is the call with the answer arriving at once.
\<close>

theorem saveContent_persists:
  assumes "c \<noteq> lastSavedContent w"
    and "fetch (updateClipboard_request (client w) (clipboardId w) c) = Inr response"
    and "ok response"
    and "json response = Inr data"
    and "client w' = client w"
    and "clipboardId w' = clipboardId w"
  shows "sent (saveContent c w) = sent w @ [updateClipboard_request (client w) (clipboardId w) c]
   \<and> awaiting (saveContent c w) = awaiting w @ [SaveContent_await c]
   \<and> saveContent_resume c fetch w' =
       w'\<lparr>clipboard := Some data, lastSavedContent := c, hasChanges := False, isSaving := False\<rparr>
   \<and> settle (length (awaiting w)) fetch (saveContent c w) =
       w\<lparr>sent := sent w @ [updateClipboard_request (client w) (clipboardId w) c],
         clipboard := Some data, lastSavedContent := c, hasChanges := False, isSaving := False\<rparr>"
proof -
  have u: "updateClipboard (client w) fetch (clipboardId w) c = Inr data"
    using assms(2-4) by (simp add: updateClipboard_def)
  have s: "sent (saveContent c w) = sent w @ [updateClipboard_request (client w) (clipboardId w) c]"
    using assms(1) by (simp add: saveContent_def Let_def)
  have a: "awaiting (saveContent c w) = awaiting w @ [SaveContent_await c]"
    using assms(1) by (simp add: saveContent_def Let_def)
  have r: "saveContent_resume c fetch w' =
       w'\<lparr>clipboard := Some data, lastSavedContent := c, hasChanges := False, isSaving := False\<rparr>"
    using u assms(5,6) by (simp add: saveContent_resume_def Let_def)
  have t: "settle (length (awaiting w)) fetch (saveContent c w) =
       w\<lparr>sent := sent w @ [updateClipboard_request (client w) (clipboardId w) c],
         clipboard := Some data, lastSavedContent := c, hasChanges := False, isSaving := False\<rparr>"
    using assms(1) u by (simp add: settle_def saveContent_def saveContent_resume_def Let_def)
  from s a r t show ?thesis by simp
qed

text \<open>
  The theorem after the user has typed \<^verbatim>\<open>hi\<close> and the store saves it; in the last
  conjunct the answer arrives after the user has typed on.
\<close>

theorem saveContent_persists_witness:
  "''hi'' \<noteq> lastSavedContent typed_hi
   \<and> store ''hi'' (updateClipboard_request (client typed_hi) (clipboardId typed_hi) ''hi'') = Inr ok_hi
   \<and> ok ok_hi \<and> json ok_hi = Inr (saved_record ''hi'')
   \<and> client saving_hi = client typed_hi \<and> clipboardId saving_hi = clipboardId typed_hi
   \<and> hasChanges typed_hi
   \<and> settle (length (awaiting typed_hi)) (store ''hi'') (saveContent ''hi'' typed_hi) =
       typed_hi\<lparr>sent := sent typed_hi @ [updateClipboard_request (api None) ''abc'' ''hi''],
         clipboard := Some (saved_record ''hi''), lastSavedContent := ''hi'', hasChanges := False,
         isSaving := False\<rparr>
   \<and> content saving_hi = ''hi!''
   \<and> saveContent_resume ''hi'' (store ''hi'') saving_hi =
       saving_hi\<lparr>clipboard := Some (saved_record ''hi''), lastSavedContent := ''hi'',
         hasChanges := False, isSaving := False\<rparr>"
proof -
  have l: "lastSavedContent typed_hi = []" "client typed_hi = api None" "clipboardId typed_hi = ''abc''"
    "hasChanges typed_hi"
    by (simp_all add: typed_hi_def handleContentChange_def setTimeout_def clear_save_timeout_def
        mounted_def fetchClipboard_def initial_def Let_def)
  have k: "client saving_hi = api None" "clipboardId saving_hi = ''abc''" "content saving_hi = ''hi!''"
    by (simp_all add: saving_hi_def handleContentChange_def setTimeout_def clear_save_timeout_def
        clearTimeout_def saveContent_def l Let_def split: option.splits)
  have 1: "''hi'' \<noteq> lastSavedContent typed_hi" by (simp add: l)
  have 2: "store ''hi'' (updateClipboard_request (client typed_hi) (clipboardId typed_hi) ''hi'') = Inr ok_hi"
    by (simp add: store_def ok_hi_def)
  have 3: "ok ok_hi" by (simp add: ok_hi_def)
  have 4: "json ok_hi = Inr (saved_record ''hi'')" by (simp add: ok_hi_def)
  have 5: "client saving_hi = client typed_hi" by (simp add: k l)
  have 6: "clipboardId saving_hi = clipboardId typed_hi" by (simp add: k l)
  from saveContent_persists [where c = "''hi''" and w = typed_hi and fetch = "store ''hi''"
      and response = ok_hi and data = "saved_record ''hi''" and w' = saving_hi, OF 1 2 3 4 5 6]
    1 2 3 4 5 6 l k
  show ?thesis by simp
qed

text \<open>
  Claim C3, as the code has it. When \<^verbatim>\<open>updateClipboard\<close> throws, resuming \<^verbatim>\<open>saveContent\<close>
  shows the destructive toast and resets \<open>isSaving\<close>; every other cell, among them
  \<open>content\<close>, \<open>lastSavedContent\<close>, \<open>hasChanges\<close> and \<open>clipboard\<close>, is as it was. When
  \<^verbatim>\<open>getClipboard\<close> throws, resuming \<^verbatim>\<open>fetchClipboard\<close> sets \<open>error\<close> to the message and
  resets \<open>isLoading\<close>; every other cell is as it was.
\<close>

theorem failures_leave_state:
  "(updateClipboard (client w) fetch (clipboardId w) c = Inl err \<longrightarrow>
      saveContent_resume c fetch w =
        w\<lparr>toasts := toasts w @
             [\<lparr>title = ''Failed to save'',
               description = (case err of Error message \<Rightarrow> message
                              | NonError \<Rightarrow> ''Could not save changes''),
               variant = Some ''destructive''\<rparr>],
          isSaving := False\<rparr>)
   \<and> (getClipboard (client w) fetch (clipboardId w) = Inl err \<longrightarrow>
      fetchClipboard_resume fetch w =
        w\<lparr>error := Some (case err of Error message \<Rightarrow> message
                          | NonError \<Rightarrow> ''Failed to load clipboard''),
          isLoading := False\<rparr>)"
  by (simp add: saveContent_resume_def fetchClipboard_resume_def Let_def)

text \<open>
  The theorem at a store that answers 404 to the save, and at a network that is down.
\<close>

theorem failures_leave_state_witness:
  "updateClipboard (client typed_hi) missing (clipboardId typed_hi) ''hi'' = Inl (Error ''Clipboard not found'')
   \<and> saveContent_resume ''hi'' missing typed_hi =
        typed_hi\<lparr>toasts := [\<lparr>title = ''Failed to save'', description = ''Clipboard not found'',
                               variant = Some ''destructive''\<rparr>],
                 isSaving := False\<rparr>
   \<and> getClipboard (client typed_hi) unreachable (clipboardId typed_hi) = Inl (Error ''Failed to fetch'')
   \<and> fetchClipboard_resume unreachable typed_hi =
        typed_hi\<lparr>error := Some ''Failed to fetch'', isLoading := False\<rparr>"
proof -
  have t: "toasts typed_hi = []"
    by (simp add: typed_hi_def handleContentChange_def setTimeout_def clear_save_timeout_def
        mounted_def fetchClipboard_def initial_def Let_def)
  have u: "updateClipboard (client typed_hi) missing (clipboardId typed_hi) ''hi'' = Inl (Error ''Clipboard not found'')"
    by (simp add: updateClipboard_def missing_def)
  have g: "getClipboard (client typed_hi) unreachable (clipboardId typed_hi) = Inl (Error ''Failed to fetch'')"
    by (simp add: getClipboard_def unreachable_def)
  from failures_leave_state [of typed_hi missing "''hi''" "Error ''Clipboard not found''"]
    failures_leave_state [of typed_hi unreachable "''hi''" "Error ''Failed to fetch''"] u g t
  show ?thesis by simp
qed

text \<open>
  Claim C3 as stated fails on the initial fetch: with the network down, the editor ends
  with the error message set and also with \<open>isLoading\<close> false, which was true initially
  and while the request was out.
\<close>

theorem failures_leave_state_counterexample:
  "getClipboard (api None) unreachable ''abc'' = Inl (Error ''Failed to fetch'')
   \<and> isLoading (initial (api None) ''abc'')
   \<and> isLoading (mounted (api None) ''abc'')
   \<and> settle 0 unreachable (mounted (api None) ''abc'') =
       (initial (api None) ''abc'')
         \<lparr>sent := [getClipboard_request (api None) ''abc''],
          error := Some ''Failed to fetch'', isLoading := False\<rparr>
   \<and> settle 0 unreachable (mounted (api None) ''abc'') \<noteq>
       (initial (api None) ''abc'')
         \<lparr>sent := [getClipboard_request (api None) ''abc''],
          error := Some ''Failed to fetch''\<rparr>"
proof -
  have g: "getClipboard (api None) unreachable ''abc'' = Inl (Error ''Failed to fetch'')"
    by (simp add: getClipboard_def unreachable_def)
  have s: "settle 0 unreachable (mounted (api None) ''abc'') =
       (initial (api None) ''abc'')
         \<lparr>sent := [getClipboard_request (api None) ''abc''],
          error := Some ''Failed to fetch'', isLoading := False\<rparr>"
    by (simp add: settle_def mounted_def fetchClipboard_def fetchClipboard_resume_def g
        initial_def Let_def)
  have i: "isLoading (initial (api None) ''abc'')" "isLoading (mounted (api None) ''abc'')"
    by (simp_all add: mounted_def fetchClipboard_def initial_def Let_def)
  have n: "settle 0 unreachable (mounted (api None) ''abc'') \<noteq>
       (initial (api None) ''abc'')
         \<lparr>sent := [getClipboard_request (api None) ''abc''],
          error := Some ''Failed to fetch''\<rparr>"
  proof
    assume "settle 0 unreachable (mounted (api None) ''abc'') =
       (initial (api None) ''abc'')
         \<lparr>sent := [getClipboard_request (api None) ''abc''],
          error := Some ''Failed to fetch''\<rparr>"
    then have "isLoading (settle 0 unreachable (mounted (api None) ''abc'')) =
       isLoading ((initial (api None) ''abc'')
         \<lparr>sent := [getClipboard_request (api None) ''abc''],
          error := Some ''Failed to fetch''\<rparr>)"
      by (rule arg_cong)
    then show False by (simp add: s i)
  qed
  from g s i n show ?thesis by simp
qed

text \<open>
  Claim C9. \<^verbatim>\<open>saveContent\<close> called with the last saved content returns the editor as it
  is: no request, no suspended call, no cell changed. It is the only argument for which
  that is so.
\<close>

theorem saveContent_unchanged:
  "saveContent (lastSavedContent w) w = w
   \<and> (saveContent c w = w \<longleftrightarrow> c = lastSavedContent w)"
proof -
  have 1: "saveContent (lastSavedContent w) w = w" by (simp add: saveContent_def)
  have 2: "saveContent c w \<noteq> w" if "c \<noteq> lastSavedContent w"
  proof
    assume "saveContent c w = w"
    then have "sent (saveContent c w) = sent w" by simp
    with that show False by (simp add: saveContent_def Let_def)
  qed
  from 1 2 show ?thesis by auto
qed

text \<open>
  The theorem after the initial fetch has loaded \<^verbatim>\<open>hello\<close>.
\<close>

theorem saveContent_unchanged_witness:
  "lastSavedContent (settle 0 (store ''hello'') (mounted (api None) ''abc'')) = ''hello''
   \<and> saveContent ''hello'' (settle 0 (store ''hello'') (mounted (api None) ''abc''))
       = settle 0 (store ''hello'') (mounted (api None) ''abc'')"
proof -
  have l: "lastSavedContent (settle 0 (store ''hello'') (mounted (api None) ''abc'')) = ''hello''"
    by (simp add: settle_def mounted_def fetchClipboard_def fetchClipboard_resume_def
        getClipboard_def store_def saved_record_def initial_def Let_def)
  from saveContent_unchanged [of "settle 0 (store ''hello'') (mounted (api None) ''abc'')" "''x''"] l
  show ?thesis by simp
qed

end
